theory Spec2Isabelle
  imports Main
begin

section \<open>Python values\<close>

text \<open>
  A Python \<open>str\<close> is a sequence of Unicode code points, so it is modelled as a list of
  natural numbers (the message of \<open>get_token\<close> contains U+2192, which is not an 8-bit
  character). \<open>S\<close> turns an ASCII literal into such a string.
\<close>

type_synonym pystr = "nat list"

definition S :: "string \<Rightarrow> pystr" where
  "S cs = map of_char cs"

text \<open>
  The values the dispatcher handles are the Python objects a JSON document decodes to:
  \<open>None\<close>, \<open>bool\<close>, \<open>int\<close>, \<open>str\<close>, \<open>list\<close> and \<open>dict\<close> with string keys. A \<open>dict\<close>
  keeps insertion order and is an association list; floating-point numbers are outside
  the model.
\<close>

datatype pyval =
    VNone
  | VBool bool
  | VInt int
  | VStr pystr
  | VList "pyval list"
  | VDict "(pystr \<times> pyval) list"

type_synonym pydict = "(pystr \<times> pyval) list"

text \<open>Truth value of an object, as \<open>if x:\<close> and \<open>x or y\<close> test it.\<close>

fun truthy :: "pyval \<Rightarrow> bool" where
  "truthy VNone = False"
| "truthy (VBool b) = b"
| "truthy (VInt i) = (i \<noteq> 0)"
| "truthy (VStr s) = (s \<noteq> [])"
| "truthy (VList xs) = (xs \<noteq> [])"
| "truthy (VDict kvs) = (kvs \<noteq> [])"

subsection \<open>Responses and exceptions\<close>

datatype http_verb = GET | POST | PUT | DELETE

text \<open>
  What \<open>response.json()\<close> can do on a body other than return the decoded value: raise
  \<open>json.JSONDecodeError\<close> (or \<open>UnicodeDecodeError\<close>), both subclasses of \<open>ValueError\<close>,
  with a message, when the body is not JSON text; or raise \<open>RecursionError\<close>, which is
  not a \<open>ValueError\<close>, when the body is JSON nested deeper than the interpreter's
  recursion limit.
\<close>

datatype decode_error = NotJSON pystr | TooDeep

text \<open>
  \<open>resp_json\<close> is what \<open>response.json()\<close> does on the response: \<open>Inr v\<close> when the body
  decodes to \<open>v\<close>, \<open>Inl\<close> of the failure otherwise.
\<close>

record response =
  resp_status_code :: nat
  resp_text :: pystr
  resp_json :: "decode_error + pyval"

text \<open>
  The exceptions that occur. \<open>JSONDecodeError\<close> stands for the \<open>ValueError\<close> subclasses
  that decoding raises and carries \<open>str(exc)\<close>; \<open>httpx.HTTPStatusError\<close> carries the
  response; \<open>TransportError\<close> stands for the failures of the HTTP client call itself
  (timeout, connection failure); \<open>RecursionError\<close> is not a \<open>ValueError\<close>.
\<close>

datatype exn =
    KeyError pystr
  | ValueError pystr
  | JSONDecodeError pystr
  | HTTPStatusError response
  | TransportError pystr
  | RecursionError

subsection \<open>Dictionary operations\<close>

text \<open>\<open>d.get(k)\<close>: the value, or \<open>None\<close> for a missing key.\<close>

definition dict_get :: "pydict \<Rightarrow> pystr \<Rightarrow> pyval" where
  "dict_get d k = (case map_of d k of None \<Rightarrow> VNone | Some v \<Rightarrow> v)"

text \<open>\<open>d[k]\<close>: raises \<open>KeyError\<close> for a missing key.\<close>

definition getitem :: "pydict \<Rightarrow> pystr \<Rightarrow> exn + pyval" where
  "getitem d k = (case map_of d k of None \<Rightarrow> Inl (KeyError k) | Some v \<Rightarrow> Inr v)"

text \<open>\<open>d.pop(k)\<close>: the value and the dictionary without the key, or \<open>KeyError\<close>.\<close>

definition dict_pop :: "pydict \<Rightarrow> pystr \<Rightarrow> exn + (pyval \<times> pydict)" where
  "dict_pop d k =
     (case map_of d k of
        None \<Rightarrow> Inl (KeyError k)
      | Some v \<Rightarrow> Inr (v, filter (\<lambda>kv. fst kv \<noteq> k) d))"

text \<open>\<open>d[k] = v\<close>: an existing key keeps its place, a new key goes last.\<close>

fun setitem :: "pydict \<Rightarrow> pystr \<Rightarrow> pyval \<Rightarrow> pydict" where
  "setitem [] k v = [(k, v)]"
| "setitem (p # ps) k v = (if fst p = k then (k, v) # ps else p # setitem ps k v)"

text \<open>\<open>{k: v for k, v in d.items() if v is not None}\<close>\<close>

definition not_none_items :: "pydict \<Rightarrow> pydict" where
  "not_none_items d = filter (\<lambda>kv. snd kv \<noteq> VNone) d"

text \<open>\<open>params or None\<close>\<close>

definition or_None :: "pydict \<Rightarrow> pydict option" where
  "or_None d = (if d \<noteq> [] then Some d else None)"

subsection \<open>Text of values\<close>

fun digits :: "nat \<Rightarrow> pystr" where
  "digits n = (if n < 10 then [48 + n] else digits (n div 10) @ [48 + n mod 10])"

declare digits.simps [simp del]

text \<open>\<open>str(i)\<close> of an integer: decimal, with a minus sign.\<close>

definition int_str :: "int \<Rightarrow> pystr" where
  "int_str i = (if i < 0 then 45 # digits (nat (- i)) else digits (nat i))"

definition hex_digit :: "nat \<Rightarrow> nat" where
  "hex_digit d = (if d < 10 then 48 + d else 87 + d)"

text \<open>\<open>hexn k n\<close>: the last \<open>k\<close> lower-case hexadecimal digits of \<open>n\<close>.\<close>

fun hexn :: "nat \<Rightarrow> nat \<Rightarrow> pystr" where
  "hexn 0 n = []"
| "hexn (Suc k) n = hexn k (n div 16) @ [hex_digit (n mod 16)]"

fun join :: "pystr \<Rightarrow> pystr list \<Rightarrow> pystr" where
  "join sep [] = []"
| "join sep [x] = x"
| "join sep (x # y # ys) = x @ sep @ join sep (y # ys)"

text \<open>
  \<open>json.dumps\<close> with \<open>ensure_ascii=True\<close>: a string is quoted, with the double quote
  and the backslash escaped by a backslash, the short escapes for backspace, form feed,
  newline, carriage return and tab, and a backslash, \<open>u\<close> and four hexadecimal digits for
  every other character outside the printable ASCII range (a surrogate pair above
  U+FFFF).
\<close>

definition escape_char :: "nat \<Rightarrow> pystr" where
  "escape_char c =
     (if c = 34 then [92, 34]
      else if c = 92 then [92, 92]
      else if c = 8 then [92, 98]
      else if c = 12 then [92, 102]
      else if c = 10 then [92, 110]
      else if c = 13 then [92, 114]
      else if c = 9 then [92, 116]
      else if 32 \<le> c \<and> c \<le> 126 then [c]
      else if c < 65536 then [92, 117] @ hexn 4 c
      else [92, 117] @ hexn 4 (55296 + ((c - 65536) div 1024) mod 1024)
         @ [92, 117] @ hexn 4 (56320 + (c - 65536) mod 1024))"

definition encode_basestring_ascii :: "pystr \<Rightarrow> pystr" where
  "encode_basestring_ascii s = [34] @ concat (map escape_char s) @ [34]"

text \<open>
  With \<open>indent=None\<close> the items are separated by \<open>", "\<close> on one line; with \<open>indent=n\<close>
  every item starts a new line, indented by \<open>n\<close> spaces per nesting level, and the
  separator is \<open>","\<close>. An empty list or dictionary is \<open>[]\<close> or \<open>{}\<close> in both.
\<close>

definition newline_indent :: "nat option \<Rightarrow> nat \<Rightarrow> pystr" where
  "newline_indent ind lvl =
     (case ind of None \<Rightarrow> [] | Some n \<Rightarrow> 10 # replicate (n * lvl) 32)"

definition item_separator :: "nat option \<Rightarrow> nat \<Rightarrow> pystr" where
  "item_separator ind lvl =
     (case ind of None \<Rightarrow> S '', '' | Some n \<Rightarrow> 44 # newline_indent ind lvl)"

fun dumps_at :: "nat option \<Rightarrow> nat \<Rightarrow> pyval \<Rightarrow> pystr" where
  "dumps_at ind lvl VNone = S ''null''"
| "dumps_at ind lvl (VBool b) = (if b then S ''true'' else S ''false'')"
| "dumps_at ind lvl (VInt i) = int_str i"
| "dumps_at ind lvl (VStr s) = encode_basestring_ascii s"
| "dumps_at ind lvl (VList xs) =
     (if xs = [] then S ''[]''
      else S ''['' @ newline_indent ind (Suc lvl)
         @ join (item_separator ind (Suc lvl)) (map (dumps_at ind (Suc lvl)) xs)
         @ newline_indent ind lvl @ S '']'')"
| "dumps_at ind lvl (VDict kvs) =
     (if kvs = [] then S ''{}''
      else S ''{'' @ newline_indent ind (Suc lvl)
         @ join (item_separator ind (Suc lvl))
             (map (\<lambda>(k, v). encode_basestring_ascii k @ S '': '' @ dumps_at ind (Suc lvl) v) kvs)
         @ newline_indent ind lvl @ S ''}'')"

text \<open>\<open>json.dumps(data)\<close> is \<open>dumps None data\<close>, \<open>json.dumps(data, indent=2)\<close> is
  \<open>dumps (Some 2) data\<close>.\<close>

definition dumps :: "nat option \<Rightarrow> pyval \<Rightarrow> pystr" where
  "dumps ind v = dumps_at ind 0 v"

text \<open>
  \<open>repr\<close> of a string: single quotes, unless the string has a single quote and no double
  quote; the quote and the backslash are escaped, as are tab, newline, carriage return,
  the other control characters and the non-printable characters. Which code points
  above U+007F are printable is a table of the Unicode database, taken as the
  parameter \<open>ip\<close>.
\<close>

definition repr_char :: "(nat \<Rightarrow> bool) \<Rightarrow> nat \<Rightarrow> nat \<Rightarrow> pystr" where
  "repr_char ip quote c =
     (if c = quote \<or> c = 92 then [92, c]
      else if c = 9 then [92, 116]
      else if c = 10 then [92, 110]
      else if c = 13 then [92, 114]
      else if c < 32 \<or> c = 127 then [92, 120] @ hexn 2 c
      else if c < 127 then [c]
      else if \<not> ip c then
        (if c \<le> 255 then [92, 120] @ hexn 2 c
         else if c \<le> 65535 then [92, 117] @ hexn 4 c
         else [92, 85] @ hexn 8 c)
      else [c])"

definition repr_str :: "(nat \<Rightarrow> bool) \<Rightarrow> pystr \<Rightarrow> pystr" where
  "repr_str ip s =
     (let quote = (if 39 \<in> set s \<and> 34 \<notin> set s then 34 else 39)
      in [quote] @ concat (map (repr_char ip quote) s) @ [quote])"

fun py_repr :: "(nat \<Rightarrow> bool) \<Rightarrow> pyval \<Rightarrow> pystr" where
  "py_repr ip VNone = S ''None''"
| "py_repr ip (VBool b) = (if b then S ''True'' else S ''False'')"
| "py_repr ip (VInt i) = int_str i"
| "py_repr ip (VStr s) = repr_str ip s"
| "py_repr ip (VList xs) = S ''['' @ join (S '', '') (map (py_repr ip) xs) @ S '']''"
| "py_repr ip (VDict kvs) =
     S ''{'' @ join (S '', '') (map (\<lambda>(k, v). repr_str ip k @ S '': '' @ py_repr ip v) kvs) @ S ''}''"

text \<open>A value inside an f-string, \<open>f"{v}"\<close>: a string as it is, anything else by \<open>repr\<close>.\<close>

definition py_str :: "(nat \<Rightarrow> bool) \<Rightarrow> pyval \<Rightarrow> pystr" where
  "py_str ip v = (case v of VStr s \<Rightarrow> s | _ \<Rightarrow> py_repr ip v)"

section \<open>The world outside the program\<close>

text \<open>
  One outbound HTTP request, as the arguments of the \<open>httpx\<close> client call: the verb, the
  URL, the headers, the \<open>params\<close> and \<open>json\<close> keyword arguments (\<open>None\<close> when not
  passed) and the timeout in seconds.
\<close>

record request =
  req_verb :: http_verb
  req_url :: pystr
  req_headers :: "(pystr \<times> pystr) list"
  req_params :: "pydict option"
  req_json :: "pydict option"
  req_timeout :: nat

text \<open>
  What the program reads and calls: the Unicode table \<open>str.isprintable\<close>, the process
  environment \<open>os.environ\<close>, and the HTTP client, which answers a request with a
  response or raises.
\<close>

record world =
  isprintable :: "nat \<Rightarrow> bool"
  environ :: "pystr \<Rightarrow> pystr option"
  network :: "request \<Rightarrow> exn + response"

text \<open>
  A computation returns a value or raises, and logs the HTTP requests it has issued.
\<close>

type_synonym 'a io = "(exn + 'a) \<times> request list"

definition return_io :: "'a \<Rightarrow> 'a io" where
  "return_io x = (Inr x, [])"

definition raise_io :: "exn \<Rightarrow> 'a io" where
  "raise_io e = (Inl e, [])"

definition lift_io :: "exn + 'a \<Rightarrow> 'a io" where
  "lift_io r = (r, [])"

definition bind_io :: "'a io \<Rightarrow> ('a \<Rightarrow> 'b io) \<Rightarrow> 'b io" where
  "bind_io m f =
     (case m of
        (Inl e, rs) \<Rightarrow> (Inl e, rs)
      | (Inr x, rs) \<Rightarrow> (case f x of (r, rs') \<Rightarrow> (r, rs @ rs')))"

text \<open>\<open>await client.get(...)\<close> and its siblings: the request is issued and logged.\<close>

definition client_request :: "world \<Rightarrow> request \<Rightarrow> response io" where
  "client_request w req = (network w req, [req])"

text \<open>\<open>response.raise_for_status()\<close>: raises unless the status is 2xx.\<close>

definition raise_for_status :: "response \<Rightarrow> exn + response" where
  "raise_for_status response =
     (if 200 \<le> resp_status_code response \<and> resp_status_code response \<le> 299
      then Inr response else Inl (HTTPStatusError response))"

text \<open>\<open>response.json()\<close>\<close>

definition response_json :: "response \<Rightarrow> exn + pyval" where
  "response_json response =
     (case resp_json response of
        Inl (NotJSON m) \<Rightarrow> Inl (JSONDecodeError m)
      | Inl TooDeep \<Rightarrow> Inl RecursionError
      | Inr v \<Rightarrow> Inr v)"

section \<open>Transport client\<close>

definition BASE_URL :: pystr where
  "BASE_URL = S ''https://webapi.teamviewer.com/api/v1''"

definition TOKEN_MISSING :: pystr where
  "TOKEN_MISSING =
     S ''TEAMVIEWER_API_TOKEN environment variable is not set. ''
     @ S ''Create a Script Token in TeamViewer Management Console under ''
     @ S ''Edit Profile '' @ [8594] @ S '' Apps '' @ [8594] @ S '' Create Script Token.''"

definition get_token :: "world \<Rightarrow> exn + pystr" where
  "get_token w =
     (let token = (case environ w (S ''TEAMVIEWER_API_TOKEN'') of None \<Rightarrow> [] | Some t \<Rightarrow> t)
      in if token = [] then Inl (ValueError TOKEN_MISSING) else Inr token)"

definition build_headers :: "world \<Rightarrow> exn + (pystr \<times> pystr) list" where
  "build_headers w =
     (case get_token w of
        Inl e \<Rightarrow> Inl e
      | Inr token \<Rightarrow>
          Inr [(S ''Authorization'', S ''Bearer '' @ token),
               (S ''Content-Type'', S ''application/json'')])"

text \<open>\<open>body or {}\<close>\<close>

definition or_empty :: "pydict option \<Rightarrow> pydict" where
  "or_empty body = (case body of None \<Rightarrow> [] | Some b \<Rightarrow> if b \<noteq> [] then b else [])"

text \<open>
  In each of the four functions the arguments of the client call are evaluated first,
  \<open>build_headers()\<close> among them, so a missing token raises before any request.
\<close>

definition tv_get :: "world \<Rightarrow> pystr \<Rightarrow> pydict option \<Rightarrow> pyval io" where
  "tv_get w path params =
     bind_io (lift_io (build_headers w)) (\<lambda>headers.
     bind_io (client_request w
        \<lparr>req_verb = GET, req_url = BASE_URL @ path, req_headers = headers,
         req_params = params, req_json = None, req_timeout = 30\<rparr>) (\<lambda>response.
     bind_io (lift_io (raise_for_status response)) (\<lambda>_.
     lift_io (response_json response))))"

definition tv_post :: "world \<Rightarrow> pystr \<Rightarrow> pydict option \<Rightarrow> pyval io" where
  "tv_post w path body =
     bind_io (lift_io (build_headers w)) (\<lambda>headers.
     bind_io (client_request w
        \<lparr>req_verb = POST, req_url = BASE_URL @ path, req_headers = headers,
         req_params = None, req_json = Some (or_empty body), req_timeout = 30\<rparr>) (\<lambda>response.
     bind_io (lift_io (raise_for_status response)) (\<lambda>_.
     lift_io (response_json response))))"

definition tv_put :: "world \<Rightarrow> pystr \<Rightarrow> pydict option \<Rightarrow> pyval io" where
  "tv_put w path body =
     bind_io (lift_io (build_headers w)) (\<lambda>headers.
     bind_io (client_request w
        \<lparr>req_verb = PUT, req_url = BASE_URL @ path, req_headers = headers,
         req_params = None, req_json = Some (or_empty body), req_timeout = 30\<rparr>) (\<lambda>response.
     bind_io (lift_io (raise_for_status response)) (\<lambda>_.
     lift_io (response_json response))))"

definition tv_delete :: "world \<Rightarrow> pystr \<Rightarrow> pyval io" where
  "tv_delete w path =
     bind_io (lift_io (build_headers w)) (\<lambda>headers.
     bind_io (client_request w
        \<lparr>req_verb = DELETE, req_url = BASE_URL @ path, req_headers = headers,
         req_params = None, req_json = None, req_timeout = 30\<rparr>) (\<lambda>response.
     bind_io (lift_io (raise_for_status response)) (\<lambda>_.
     if resp_status_code response = 204
     then return_io (VDict [(S ''success'', VBool True)])
     else lift_io (response_json response))))"

text \<open>The result of a tool call: a list of text items (\<open>type\<close> and \<open>text\<close>).\<close>

datatype content = TextContent pystr pystr

definition ok :: "pyval \<Rightarrow> content list" where
  "ok data = [TextContent (S ''text'') (dumps (Some 2) data)]"

section \<open>Tool catalog\<close>

text \<open>
  A tool descriptor with what the dispatcher's contract depends on: the name, the
  names of the properties of its input schema, and the required ones. Descriptions
  and property types are left out.
\<close>

record tool =
  tool_name :: pystr
  tool_properties :: "pystr list"
  tool_required :: "pystr list"

definition TOOLS :: "tool list" where
  "TOOLS =
     [
      \<lparr>tool_name = S ''get_account'',
       tool_properties = [],
       tool_required = []\<rparr>,
      \<lparr>tool_name = S ''update_account'',
       tool_properties = [S ''email'', S ''name'', S ''company'', S ''password'', S ''old_password''],
       tool_required = []\<rparr>,
      \<lparr>tool_name = S ''list_devices'',
       tool_properties = [S ''groupid'', S ''online_state'', S ''full_list''],
       tool_required = []\<rparr>,
      \<lparr>tool_name = S ''get_device'',
       tool_properties = [S ''device_id''],
       tool_required = [S ''device_id'']\<rparr>,
      \<lparr>tool_name = S ''update_device'',
       tool_properties = [S ''device_id'', S ''alias'', S ''description'', S ''password'', S ''groupid''],
       tool_required = [S ''device_id'']\<rparr>,
      \<lparr>tool_name = S ''delete_device'',
       tool_properties = [S ''device_id''],
       tool_required = [S ''device_id'']\<rparr>,
      \<lparr>tool_name = S ''list_groups'',
       tool_properties = [S ''name''],
       tool_required = []\<rparr>,
      \<lparr>tool_name = S ''create_group'',
       tool_properties = [S ''name'', S ''policy_id''],
       tool_required = [S ''name'']\<rparr>,
      \<lparr>tool_name = S ''update_group'',
       tool_properties = [S ''group_id'', S ''name'', S ''policy_id''],
       tool_required = [S ''group_id'']\<rparr>,
      \<lparr>tool_name = S ''delete_group'',
       tool_properties = [S ''group_id''],
       tool_required = [S ''group_id'']\<rparr>,
      \<lparr>tool_name = S ''share_group'',
       tool_properties = [S ''group_id'', S ''users''],
       tool_required = [S ''group_id'', S ''users'']\<rparr>,
      \<lparr>tool_name = S ''list_users'',
       tool_properties = [S ''name'', S ''email'', S ''permissions'', S ''full_list''],
       tool_required = []\<rparr>,
      \<lparr>tool_name = S ''create_user'',
       tool_properties = [S ''email'', S ''name'', S ''password'', S ''permissions'', S ''language''],
       tool_required = [S ''email'', S ''name'', S ''password'']\<rparr>,
      \<lparr>tool_name = S ''get_user'',
       tool_properties = [S ''user_id''],
       tool_required = [S ''user_id'']\<rparr>,
      \<lparr>tool_name = S ''update_user'',
       tool_properties = [S ''user_id'', S ''email'', S ''name'', S ''permissions'', S ''active''],
       tool_required = [S ''user_id'']\<rparr>,
      \<lparr>tool_name = S ''list_sessions'',
       tool_properties = [S ''groupid'', S ''state''],
       tool_required = []\<rparr>,
      \<lparr>tool_name = S ''create_session'',
       tool_properties = [S ''groupid'', S ''description'', S ''custom_internal_id''],
       tool_required = [S ''groupid'']\<rparr>,
      \<lparr>tool_name = S ''get_session'',
       tool_properties = [S ''session_code''],
       tool_required = [S ''session_code'']\<rparr>,
      \<lparr>tool_name = S ''update_session'',
       tool_properties = [S ''session_code'', S ''description'', S ''custom_internal_id''],
       tool_required = [S ''session_code'']\<rparr>,
      \<lparr>tool_name = S ''close_session'',
       tool_properties = [S ''session_code''],
       tool_required = [S ''session_code'']\<rparr>,
      \<lparr>tool_name = S ''get_connection_reports'',
       tool_properties = [S ''from_date'', S ''to_date'', S ''device_id'', S ''user_id'', S ''session_code'', S ''limit'', S ''offset''],
       tool_required = []\<rparr>,
      \<lparr>tool_name = S ''list_meetings'',
       tool_properties = [],
       tool_required = []\<rparr>,
      \<lparr>tool_name = S ''create_meeting'',
       tool_properties = [S ''subject'', S ''start'', S ''end'', S ''password''],
       tool_required = [S ''subject'', S ''start'', S ''end'']\<rparr>,
      \<lparr>tool_name = S ''get_meeting'',
       tool_properties = [S ''meeting_id''],
       tool_required = [S ''meeting_id'']\<rparr>,
      \<lparr>tool_name = S ''update_meeting'',
       tool_properties = [S ''meeting_id'', S ''subject'', S ''start'', S ''end'', S ''password''],
       tool_required = [S ''meeting_id'']\<rparr>,
      \<lparr>tool_name = S ''delete_meeting'',
       tool_properties = [S ''meeting_id''],
       tool_required = [S ''meeting_id'']\<rparr>,
      \<lparr>tool_name = S ''list_policies'',
       tool_properties = [],
       tool_required = []\<rparr>,
      \<lparr>tool_name = S ''get_policy'',
       tool_properties = [S ''policy_id''],
       tool_required = [S ''policy_id'']\<rparr>,
      \<lparr>tool_name = S ''ping'',
       tool_properties = [],
       tool_required = []\<rparr>
     ]"

definition handle_list_tools :: "tool list" where
  "handle_list_tools = TOOLS"

section \<open>Dispatcher\<close>

text \<open>The translation table of \<open>get_connection_reports\<close>, in the order it is written.\<close>

definition field_map :: "(pystr \<times> pystr) list" where
  "field_map =
     [(S ''from_date'', S ''from''),
      (S ''to_date'', S ''to''),
      (S ''device_id'', S ''deviceid''),
      (S ''user_id'', S ''userid''),
      (S ''session_code'', S ''sessioncode''),
      (S ''limit'', S ''limit''),
      (S ''offset'', S ''offset'')]"

text \<open>
  The body of the \<open>try\<close> block. Where the source reads \<open>args[k]\<close> right after testing
  \<open>args.get(k)\<close>, the key is present and the read is \<open>dict_get\<close>; every other subscript
  and every \<open>pop\<close> can raise \<open>KeyError\<close>, before the transport function is called.
  A \<open>pop\<close> also removes the key from the dictionary the caller passed; that dictionary
  is not part of the result here.
\<close>

definition try_body :: "world \<Rightarrow> pystr \<Rightarrow> pydict \<Rightarrow> content list io" where
  "try_body w name args =
     (if name = S ''ping'' then
        bind_io (tv_get w (S ''/ping'') None) (\<lambda>data. return_io (ok data))
      else if name = S ''get_account'' then
        bind_io (tv_get w (S ''/account'') None) (\<lambda>data. return_io (ok data))
      else if name = S ''update_account'' then
        (let payload = not_none_items args
         in bind_io (tv_put w (S ''/account'') (Some payload)) (\<lambda>data. return_io (ok data)))
      else if name = S ''list_devices'' then
        (let params = [];
             params = (if truthy (dict_get args (S ''groupid''))
                       then setitem params (S ''groupid'') (dict_get args (S ''groupid'')) else params);
             params = (if truthy (dict_get args (S ''online_state''))
                       then setitem params (S ''online_state'') (dict_get args (S ''online_state'')) else params);
             params = (if truthy (dict_get args (S ''full_list''))
                       then setitem params (S ''full_list'') (VStr (S ''true'')) else params)
         in bind_io (tv_get w (S ''/devices'') (or_None params)) (\<lambda>data. return_io (ok data)))
      else if name = S ''get_device'' then
        bind_io (lift_io (getitem args (S ''device_id''))) (\<lambda>device_id.
        bind_io (tv_get w (S ''/devices/'' @ py_str (isprintable w) device_id) None) (\<lambda>data. return_io (ok data)))
      else if name = S ''update_device'' then
        bind_io (lift_io (dict_pop args (S ''device_id''))) (\<lambda>(device_id, args).
        let payload = not_none_items args
        in bind_io (tv_put w (S ''/devices/'' @ py_str (isprintable w) device_id) (Some payload))
             (\<lambda>data. return_io (ok data)))
      else if name = S ''delete_device'' then
        bind_io (lift_io (getitem args (S ''device_id''))) (\<lambda>device_id.
        bind_io (tv_delete w (S ''/devices/'' @ py_str (isprintable w) device_id)) (\<lambda>data. return_io (ok data)))
      else if name = S ''list_groups'' then
        (let params = [];
             params = (if truthy (dict_get args (S ''name''))
                       then setitem params (S ''name'') (dict_get args (S ''name'')) else params)
         in bind_io (tv_get w (S ''/groups'') (or_None params)) (\<lambda>data. return_io (ok data)))
      else if name = S ''create_group'' then
        bind_io (lift_io (getitem args (S ''name''))) (\<lambda>group_name.
        let payload = [(S ''name'', group_name)];
            payload = (if truthy (dict_get args (S ''policy_id''))
                       then setitem payload (S ''policy_id'') (dict_get args (S ''policy_id''))
                       else payload)
        in bind_io (tv_post w (S ''/groups'') (Some payload)) (\<lambda>data. return_io (ok data)))
      else if name = S ''update_group'' then
        bind_io (lift_io (dict_pop args (S ''group_id''))) (\<lambda>(group_id, args).
        let payload = not_none_items args
        in bind_io (tv_put w (S ''/groups/'' @ py_str (isprintable w) group_id) (Some payload))
             (\<lambda>data. return_io (ok data)))
      else if name = S ''delete_group'' then
        bind_io (lift_io (getitem args (S ''group_id''))) (\<lambda>group_id.
        bind_io (tv_delete w (S ''/groups/'' @ py_str (isprintable w) group_id)) (\<lambda>data. return_io (ok data)))
      else if name = S ''share_group'' then
        bind_io (lift_io (getitem args (S ''group_id''))) (\<lambda>group_id.
        bind_io (lift_io (getitem args (S ''users''))) (\<lambda>users.
        let payload = [(S ''users'', users)]
        in bind_io (tv_post w (S ''/groups/'' @ py_str (isprintable w) group_id @ S ''/share_group'')
                      (Some payload))
             (\<lambda>data. return_io (ok data))))
      else if name = S ''list_users'' then
        (let params = [];
             params = fold (\<lambda>field params.
                              if truthy (dict_get args field)
                              then setitem params field (dict_get args field) else params)
                        [S ''name'', S ''email'', S ''permissions''] params;
             params = (if truthy (dict_get args (S ''full_list''))
                       then setitem params (S ''full_list'') (VStr (S ''true'')) else params)
         in bind_io (tv_get w (S ''/users'') (or_None params)) (\<lambda>data. return_io (ok data)))
      else if name = S ''create_user'' then
        (let payload = not_none_items args
         in bind_io (tv_post w (S ''/users'') (Some payload)) (\<lambda>data. return_io (ok data)))
      else if name = S ''get_user'' then
        bind_io (lift_io (getitem args (S ''user_id''))) (\<lambda>user_id.
        bind_io (tv_get w (S ''/users/'' @ py_str (isprintable w) user_id) None) (\<lambda>data. return_io (ok data)))
      else if name = S ''update_user'' then
        bind_io (lift_io (dict_pop args (S ''user_id''))) (\<lambda>(user_id, args).
        let payload = not_none_items args
        in bind_io (tv_put w (S ''/users/'' @ py_str (isprintable w) user_id) (Some payload))
             (\<lambda>data. return_io (ok data)))
      else if name = S ''list_sessions'' then
        (let params = [];
             params = (if truthy (dict_get args (S ''groupid''))
                       then setitem params (S ''groupid'') (dict_get args (S ''groupid'')) else params);
             params = (if truthy (dict_get args (S ''state''))
                       then setitem params (S ''state'') (dict_get args (S ''state'')) else params)
         in bind_io (tv_get w (S ''/sessions'') (or_None params)) (\<lambda>data. return_io (ok data)))
      else if name = S ''create_session'' then
        (let payload = not_none_items args
         in bind_io (tv_post w (S ''/sessions'') (Some payload)) (\<lambda>data. return_io (ok data)))
      else if name = S ''get_session'' then
        bind_io (lift_io (getitem args (S ''session_code''))) (\<lambda>session_code.
        bind_io (tv_get w (S ''/sessions/'' @ py_str (isprintable w) session_code) None) (\<lambda>data. return_io (ok data)))
      else if name = S ''update_session'' then
        bind_io (lift_io (dict_pop args (S ''session_code''))) (\<lambda>(session_code, args).
        let payload = not_none_items args
        in bind_io (tv_put w (S ''/sessions/'' @ py_str (isprintable w) session_code) (Some payload))
             (\<lambda>data. return_io (ok data)))
      else if name = S ''close_session'' then
        bind_io (lift_io (getitem args (S ''session_code''))) (\<lambda>session_code.
        bind_io (tv_put w (S ''/sessions/'' @ py_str (isprintable w) session_code)
                   (Some [(S ''state'', VStr (S ''closed''))]))
          (\<lambda>data. return_io (ok data)))
      else if name = S ''get_connection_reports'' then
        (let params = [];
             params = fold (\<lambda>(arg_key, param_key) params.
                              if dict_get args arg_key \<noteq> VNone
                              then setitem params param_key (dict_get args arg_key) else params)
                        field_map params
         in bind_io (tv_get w (S ''/reports/connections'') (or_None params))
              (\<lambda>data. return_io (ok data)))
      else if name = S ''list_meetings'' then
        bind_io (tv_get w (S ''/meetings'') None) (\<lambda>data. return_io (ok data))
      else if name = S ''create_meeting'' then
        (let payload = not_none_items args
         in bind_io (tv_post w (S ''/meetings'') (Some payload)) (\<lambda>data. return_io (ok data)))
      else if name = S ''get_meeting'' then
        bind_io (lift_io (getitem args (S ''meeting_id''))) (\<lambda>meeting_id.
        bind_io (tv_get w (S ''/meetings/'' @ py_str (isprintable w) meeting_id) None) (\<lambda>data. return_io (ok data)))
      else if name = S ''update_meeting'' then
        bind_io (lift_io (dict_pop args (S ''meeting_id''))) (\<lambda>(meeting_id, args).
        let payload = not_none_items args
        in bind_io (tv_put w (S ''/meetings/'' @ py_str (isprintable w) meeting_id) (Some payload))
             (\<lambda>data. return_io (ok data)))
      else if name = S ''delete_meeting'' then
        bind_io (lift_io (getitem args (S ''meeting_id''))) (\<lambda>meeting_id.
        bind_io (tv_delete w (S ''/meetings/'' @ py_str (isprintable w) meeting_id)) (\<lambda>data. return_io (ok data)))
      else if name = S ''list_policies'' then
        bind_io (tv_get w (S ''/teamviewerpolicies'') None) (\<lambda>data. return_io (ok data))
      else if name = S ''get_policy'' then
        bind_io (lift_io (getitem args (S ''policy_id''))) (\<lambda>policy_id.
        bind_io (tv_get w (S ''/teamviewerpolicies/'' @ py_str (isprintable w) policy_id) None) (\<lambda>data. return_io (ok data)))
      else return_io
        [TextContent (S ''text'')
           (dumps None (VDict [(S ''error'', VStr (S ''Unknown tool: '' @ name))]))])"

text \<open>
  The two \<open>except\<close> clauses. \<open>httpx.HTTPStatusError\<close> is caught by the first; the second
  catches \<open>ValueError\<close> and its subclasses, \<open>json.JSONDecodeError\<close> among them;
  \<open>str(exc)\<close> is the message. Every other exception propagates, \<open>KeyError\<close>,
  \<open>RecursionError\<close> and the failures of the client call among them.
\<close>

definition except_clauses :: "exn \<Rightarrow> exn + content list" where
  "except_clauses exc =
     (case exc of
        HTTPStatusError response \<Rightarrow>
          (let error_body = resp_text response
           in Inr [TextContent (S ''text'')
                 (dumps (Some 2)
                    (VDict [(S ''error'',
                             VStr (S ''TeamViewer API error '' @ int_str (int (resp_status_code response)))),
                            (S ''detail'', VStr error_body)]))])
      | ValueError m \<Rightarrow>
          Inr [TextContent (S ''text'') (dumps (Some 2) (VDict [(S ''error'', VStr m)]))]
      | JSONDecodeError m \<Rightarrow>
          Inr [TextContent (S ''text'') (dumps (Some 2) (VDict [(S ''error'', VStr m)]))]
      | _ \<Rightarrow> Inl exc)"

text \<open>\<open>arguments or {}\<close>\<close>

definition or_empty_args :: "pydict option \<Rightarrow> pydict" where
  "or_empty_args arguments =
     (case arguments of None \<Rightarrow> [] | Some a \<Rightarrow> if a \<noteq> [] then a else [])"

text \<open>
  The handler: the result is \<open>Inr\<close> of the returned content list or \<open>Inl\<close> of the
  exception that leaves the function, with the requests issued on the way.
\<close>

definition handle_call_tool :: "world \<Rightarrow> pystr \<Rightarrow> pydict option \<Rightarrow> content list io" where
  "handle_call_tool w name arguments =
     (let args = or_empty_args arguments
      in case try_body w name args of
           (Inl exc, rs) \<Rightarrow> (except_clauses exc, rs)
         | (Inr result, rs) \<Rightarrow> (Inr result, rs))"

section \<open>The transport call of a tool\<close>

text \<open>
  Every branch of the dispatcher shapes its arguments, makes one transport call and
  wraps the result with \<open>ok\<close>. \<open>tool_call\<close> is the shaping alone: the transport call
  a tool makes (\<open>None\<close> for an unknown name), or the \<open>KeyError\<close> raised before it.
  Lemma \<open>try_body_tool_call\<close> shows that the dispatcher is this function followed by
  the call.
\<close>

datatype call =
    Get pystr "pydict option"
  | Post pystr "pydict option"
  | Put pystr "pydict option"
  | Delete pystr

fun run :: "world \<Rightarrow> call \<Rightarrow> pyval io" where
  "run w (Get path params) = tv_get w path params"
| "run w (Post path body) = tv_post w path body"
| "run w (Put path body) = tv_put w path body"
| "run w (Delete path) = tv_delete w path"

definition tool_call :: "world \<Rightarrow> pystr \<Rightarrow> pydict \<Rightarrow> exn + call option" where
  "tool_call w name args =
     (if name = S ''ping'' then Inr (Some (Get (S ''/ping'') None))
      else if name = S ''get_account'' then Inr (Some (Get (S ''/account'') None))
      else if name = S ''update_account'' then Inr (Some (Put (S ''/account'') (Some (not_none_items args))))
      else if name = S ''list_devices'' then
        (let params = [];
             params = (if truthy (dict_get args (S ''groupid''))
                       then setitem params (S ''groupid'') (dict_get args (S ''groupid'')) else params);
             params = (if truthy (dict_get args (S ''online_state''))
                       then setitem params (S ''online_state'') (dict_get args (S ''online_state'')) else params);
             params = (if truthy (dict_get args (S ''full_list''))
                       then setitem params (S ''full_list'') (VStr (S ''true'')) else params)
         in Inr (Some (Get (S ''/devices'') (or_None params))))
      else if name = S ''get_device'' then
        (case getitem args (S ''device_id'') of
           Inl e \<Rightarrow> Inl e
         | Inr device_id \<Rightarrow> Inr (Some (Get (S ''/devices/'' @ py_str (isprintable w) device_id) None)))
      else if name = S ''update_device'' then
        (case dict_pop args (S ''device_id'') of
           Inl e \<Rightarrow> Inl e
         | Inr (device_id, args) \<Rightarrow>
             Inr (Some (Put (S ''/devices/'' @ py_str (isprintable w) device_id) (Some (not_none_items args)))))
      else if name = S ''delete_device'' then
        (case getitem args (S ''device_id'') of
           Inl e \<Rightarrow> Inl e
         | Inr device_id \<Rightarrow> Inr (Some (Delete (S ''/devices/'' @ py_str (isprintable w) device_id))))
      else if name = S ''list_groups'' then
        (let params = [];
             params = (if truthy (dict_get args (S ''name''))
                       then setitem params (S ''name'') (dict_get args (S ''name'')) else params)
         in Inr (Some (Get (S ''/groups'') (or_None params))))
      else if name = S ''create_group'' then
        (case getitem args (S ''name'') of
           Inl e \<Rightarrow> Inl e
         | Inr group_name \<Rightarrow>
             (let payload = [(S ''name'', group_name)];
                  payload = (if truthy (dict_get args (S ''policy_id''))
                             then setitem payload (S ''policy_id'') (dict_get args (S ''policy_id''))
                             else payload)
              in Inr (Some (Post (S ''/groups'') (Some payload)))))
      else if name = S ''update_group'' then
        (case dict_pop args (S ''group_id'') of
           Inl e \<Rightarrow> Inl e
         | Inr (group_id, args) \<Rightarrow>
             Inr (Some (Put (S ''/groups/'' @ py_str (isprintable w) group_id) (Some (not_none_items args)))))
      else if name = S ''delete_group'' then
        (case getitem args (S ''group_id'') of
           Inl e \<Rightarrow> Inl e
         | Inr group_id \<Rightarrow> Inr (Some (Delete (S ''/groups/'' @ py_str (isprintable w) group_id))))
      else if name = S ''share_group'' then
        (case getitem args (S ''group_id'') of
           Inl e \<Rightarrow> Inl e
         | Inr group_id \<Rightarrow>
             (case getitem args (S ''users'') of
                Inl e \<Rightarrow> Inl e
              | Inr users \<Rightarrow>
                  Inr (Some (Post (S ''/groups/'' @ py_str (isprintable w) group_id @ S ''/share_group'')
                               (Some [(S ''users'', users)])))))
      else if name = S ''list_users'' then
        (let params = [];
             params = fold (\<lambda>field params.
                              if truthy (dict_get args field)
                              then setitem params field (dict_get args field) else params)
                        [S ''name'', S ''email'', S ''permissions''] params;
             params = (if truthy (dict_get args (S ''full_list''))
                       then setitem params (S ''full_list'') (VStr (S ''true'')) else params)
         in Inr (Some (Get (S ''/users'') (or_None params))))
      else if name = S ''create_user'' then Inr (Some (Post (S ''/users'') (Some (not_none_items args))))
      else if name = S ''get_user'' then
        (case getitem args (S ''user_id'') of
           Inl e \<Rightarrow> Inl e
         | Inr user_id \<Rightarrow> Inr (Some (Get (S ''/users/'' @ py_str (isprintable w) user_id) None)))
      else if name = S ''update_user'' then
        (case dict_pop args (S ''user_id'') of
           Inl e \<Rightarrow> Inl e
         | Inr (user_id, args) \<Rightarrow>
             Inr (Some (Put (S ''/users/'' @ py_str (isprintable w) user_id) (Some (not_none_items args)))))
      else if name = S ''list_sessions'' then
        (let params = [];
             params = (if truthy (dict_get args (S ''groupid''))
                       then setitem params (S ''groupid'') (dict_get args (S ''groupid'')) else params);
             params = (if truthy (dict_get args (S ''state''))
                       then setitem params (S ''state'') (dict_get args (S ''state'')) else params)
         in Inr (Some (Get (S ''/sessions'') (or_None params))))
      else if name = S ''create_session'' then Inr (Some (Post (S ''/sessions'') (Some (not_none_items args))))
      else if name = S ''get_session'' then
        (case getitem args (S ''session_code'') of
           Inl e \<Rightarrow> Inl e
         | Inr session_code \<Rightarrow> Inr (Some (Get (S ''/sessions/'' @ py_str (isprintable w) session_code) None)))
      else if name = S ''update_session'' then
        (case dict_pop args (S ''session_code'') of
           Inl e \<Rightarrow> Inl e
         | Inr (session_code, args) \<Rightarrow>
             Inr (Some (Put (S ''/sessions/'' @ py_str (isprintable w) session_code) (Some (not_none_items args)))))
      else if name = S ''close_session'' then
        (case getitem args (S ''session_code'') of
           Inl e \<Rightarrow> Inl e
         | Inr session_code \<Rightarrow>
             Inr (Some (Put (S ''/sessions/'' @ py_str (isprintable w) session_code)
                          (Some [(S ''state'', VStr (S ''closed''))]))))
      else if name = S ''get_connection_reports'' then
        (let params = [];
             params = fold (\<lambda>(arg_key, param_key) params.
                              if dict_get args arg_key \<noteq> VNone
                              then setitem params param_key (dict_get args arg_key) else params)
                        field_map params
         in Inr (Some (Get (S ''/reports/connections'') (or_None params))))
      else if name = S ''list_meetings'' then Inr (Some (Get (S ''/meetings'') None))
      else if name = S ''create_meeting'' then Inr (Some (Post (S ''/meetings'') (Some (not_none_items args))))
      else if name = S ''get_meeting'' then
        (case getitem args (S ''meeting_id'') of
           Inl e \<Rightarrow> Inl e
         | Inr meeting_id \<Rightarrow> Inr (Some (Get (S ''/meetings/'' @ py_str (isprintable w) meeting_id) None)))
      else if name = S ''update_meeting'' then
        (case dict_pop args (S ''meeting_id'') of
           Inl e \<Rightarrow> Inl e
         | Inr (meeting_id, args) \<Rightarrow>
             Inr (Some (Put (S ''/meetings/'' @ py_str (isprintable w) meeting_id) (Some (not_none_items args)))))
      else if name = S ''delete_meeting'' then
        (case getitem args (S ''meeting_id'') of
           Inl e \<Rightarrow> Inl e
         | Inr meeting_id \<Rightarrow> Inr (Some (Delete (S ''/meetings/'' @ py_str (isprintable w) meeting_id))))
      else if name = S ''list_policies'' then Inr (Some (Get (S ''/teamviewerpolicies'') None))
      else if name = S ''get_policy'' then
        (case getitem args (S ''policy_id'') of
           Inl e \<Rightarrow> Inl e
         | Inr policy_id \<Rightarrow> Inr (Some (Get (S ''/teamviewerpolicies/'' @ py_str (isprintable w) policy_id) None)))
      else Inr None)"

definition after_call :: "world \<Rightarrow> pystr \<Rightarrow> exn + call option \<Rightarrow> content list io" where
  "after_call w name sc =
     (case sc of
        Inl e \<Rightarrow> raise_io e
      | Inr None \<Rightarrow>
          return_io [TextContent (S ''text'')
             (dumps None (VDict [(S ''error'', VStr (S ''Unknown tool: '' @ name))]))]
      | Inr (Some c) \<Rightarrow> bind_io (run w c) (\<lambda>data. return_io (ok data)))"

fun call_request :: "(pystr \<times> pystr) list \<Rightarrow> call \<Rightarrow> request" where
  "call_request headers (Get path params) =
     \<lparr>req_verb = GET, req_url = BASE_URL @ path, req_headers = headers,
      req_params = params, req_json = None, req_timeout = 30\<rparr>"
| "call_request headers (Post path body) =
     \<lparr>req_verb = POST, req_url = BASE_URL @ path, req_headers = headers,
      req_params = None, req_json = Some (or_empty body), req_timeout = 30\<rparr>"
| "call_request headers (Put path body) =
     \<lparr>req_verb = PUT, req_url = BASE_URL @ path, req_headers = headers,
      req_params = None, req_json = Some (or_empty body), req_timeout = 30\<rparr>"
| "call_request headers (Delete path) =
     \<lparr>req_verb = DELETE, req_url = BASE_URL @ path, req_headers = headers,
      req_params = None, req_json = None, req_timeout = 30\<rparr>"

definition receive :: "http_verb \<Rightarrow> exn + response \<Rightarrow> exn + pyval" where
  "receive verb answer =
     (case answer of
        Inl e \<Rightarrow> Inl e
      | Inr response \<Rightarrow>
          (case raise_for_status response of
             Inl e \<Rightarrow> Inl e
           | Inr _ \<Rightarrow>
               if verb = DELETE \<and> resp_status_code response = 204
               then Inr (VDict [(S ''success'', VBool True)])
               else response_json response))"

definition finish :: "exn + pyval \<Rightarrow> exn + content list" where
  "finish r = (case r of Inl e \<Rightarrow> except_clauses e | Inr data \<Rightarrow> Inr (ok data))"

definition unknown_tool :: "pystr \<Rightarrow> content list" where
  "unknown_tool name =
     [TextContent (S ''text'')
        (dumps None (VDict [(S ''error'', VStr (S ''Unknown tool: '' @ name))]))]"

text \<open>The keys of an optional dictionary, and the keys a transport call sends.\<close>

definition dict_keys :: "pydict option \<Rightarrow> pystr set" where
  "dict_keys d = (case d of None \<Rightarrow> {} | Some kvs \<Rightarrow> fst ` set kvs)"

fun call_keys :: "call \<Rightarrow> pystr set" where
  "call_keys (Get path params) = dict_keys params"
| "call_keys (Post path body) = fst ` set (or_empty body)"
| "call_keys (Put path body) = fst ` set (or_empty body)"
| "call_keys (Delete path) = {}"

text \<open>
  Where the keys of a request can come from: the fixed body of \<open>close_session\<close>, the
  translation of a present argument for \<open>get_connection_reports\<close>, and a present
  argument for every other tool.
\<close>

definition key_allowed :: "pystr \<Rightarrow> pydict \<Rightarrow> pystr \<Rightarrow> bool" where
  "key_allowed name args k =
     (if name = S ''close_session'' then k = S ''state''
      else if name = S ''get_connection_reports''
      then k \<in> snd ` set (filter (\<lambda>ap. fst ap \<in> fst ` set args) field_map)
      else k \<in> fst ` set args)"

definition keys_ok :: "pystr \<Rightarrow> pydict \<Rightarrow> exn + call option \<Rightarrow> bool" where
  "keys_ok name args r =
     (case r of Inr (Some c) \<Rightarrow> (\<forall>k \<in> call_keys c. key_allowed name args k) | _ \<Rightarrow> True)"

definition only_KeyError :: "pydict \<Rightarrow> exn + call option \<Rightarrow> bool" where
  "only_KeyError args r =
     (case r of Inl (KeyError k) \<Rightarrow> k \<notin> fst ` set args | Inl _ \<Rightarrow> False | Inr _ \<Rightarrow> True)"

text \<open>The query-parameter name of an argument of a tool.\<close>

definition param_name :: "pystr \<Rightarrow> pystr \<Rightarrow> pystr" where
  "param_name name a =
     (if name = S ''get_connection_reports''
      then (case map_of field_map a of None \<Rightarrow> a | Some p \<Rightarrow> p)
      else a)"

text \<open>
  The query of \<open>get_connection_reports\<close> in the words of the specification. An argument
  is supplied when it is present and not \<open>None\<close>; a supplied argument \<open>a\<close> contributes
  the one entry \<open>p\<close> with its value, an argument that is not supplied contributes
  nothing. The seven arguments are translated \<open>from_date\<close> to \<open>from\<close>, \<open>to_date\<close> to \<open>to\<close>,
  \<open>device_id\<close> to \<open>deviceid\<close>, \<open>user_id\<close> to \<open>userid\<close>, \<open>session_code\<close> to
  \<open>sessioncode\<close>, \<open>limit\<close> to \<open>limit\<close> and \<open>offset\<close> to \<open>offset\<close>.
\<close>

definition supplied :: "pydict \<Rightarrow> pystr \<Rightarrow> pystr \<Rightarrow> pydict" where
  "supplied args a p = (if dict_get args a \<noteq> VNone then [(p, dict_get args a)] else [])"

definition translated_query :: "pydict \<Rightarrow> pydict" where
  "translated_query args =
     supplied args (S ''from_date'') (S ''from'')
     @ supplied args (S ''to_date'') (S ''to'')
     @ supplied args (S ''device_id'') (S ''deviceid'')
     @ supplied args (S ''user_id'') (S ''userid'')
     @ supplied args (S ''session_code'') (S ''sessioncode'')
     @ supplied args (S ''limit'') (S ''limit'')
     @ supplied args (S ''offset'') (S ''offset'')"

subsection \<open>Concrete worlds\<close>

definition environ_with :: "pystr \<Rightarrow> pystr \<Rightarrow> pystr option" where
  "environ_with token k = (if k = S ''TEAMVIEWER_API_TOKEN'' then Some token else None)"


definition ascii_only :: "nat \<Rightarrow> bool" where
  "ascii_only c = False"

definition answer_ok :: "request \<Rightarrow> exn + response" where
  "answer_ok r =
     Inr \<lparr>resp_status_code = 200, resp_text = S ''{\"ok\": true}'',
          resp_json = Inr (VDict [(S ''ok'', VBool True)])\<rparr>"

definition answer_204 :: "request \<Rightarrow> exn + response" where
  "answer_204 r =
     Inr \<lparr>resp_status_code = 204, resp_text = [],
          resp_json = Inl (NotJSON (S ''Expecting value: line 1 column 1 (char 0)''))\<rparr>"

definition answer_html :: "request \<Rightarrow> exn + response" where
  "answer_html r =
     Inr \<lparr>resp_status_code = 200, resp_text = S ''<html>'',
          resp_json = Inl (NotJSON (S ''Expecting value: line 1 column 1 (char 0)''))\<rparr>"

definition answer_deep :: "request \<Rightarrow> exn + response" where
  "answer_deep r =
     Inr \<lparr>resp_status_code = 200, resp_text = S ''[[[[[[[[[['', resp_json = Inl TooDeep\<rparr>"



text \<open>A configured token and a server that answers 200 with a JSON body.\<close>

definition world_ok :: world where
  "world_ok = \<lparr>isprintable = ascii_only, environ = environ_with (S ''secret''), network = answer_ok\<rparr>"


text \<open>A server that answers 204 with an empty body, which does not decode.\<close>

definition world_204 :: world where
  "world_204 = \<lparr>isprintable = ascii_only, environ = environ_with (S ''secret''), network = answer_204\<rparr>"

text \<open>A server that answers 200 with a body that is not JSON.\<close>

definition world_html :: world where
  "world_html = \<lparr>isprintable = ascii_only, environ = environ_with (S ''secret''), network = answer_html\<rparr>"

text \<open>A server that answers 200 with a body nested too deep to decode.\<close>

definition world_deep :: world where
  "world_deep = \<lparr>isprintable = ascii_only, environ = environ_with (S ''secret''), network = answer_deep\<rparr>"



definition secret_headers :: "(pystr \<times> pystr) list" where
  "secret_headers =
     [(S ''Authorization'', S ''Bearer secret''), (S ''Content-Type'', S ''application/json'')]"

lemma S_eq_iff [simp]: "S a = S b \<longleftrightarrow> a = b"
  by (simp add: S_def inj_map_eq_map [OF inj_of_char])

lemma chain_step:
  "(c \<Longrightarrow> a = after_call w n b) \<Longrightarrow> (\<not> c \<Longrightarrow> a' = after_call w n b')
   \<Longrightarrow> (if c then a else a') = after_call w n (if c then b else b')"
  by simp

lemma try_body_tool_call:
  "try_body w name args = after_call w name (tool_call w name args)"
  unfolding try_body_def tool_call_def
  apply (intro chain_step)
  apply (simp_all add: after_call_def Let_def bind_io_def lift_io_def raise_io_def split: sum.split prod.split)
  done

lemma run_unfold:
  "run w c =
     (case build_headers w of
        Inl e \<Rightarrow> (Inl e, [])
      | Inr headers \<Rightarrow>
          (receive (req_verb (call_request headers c)) (network w (call_request headers c)),
           [call_request headers c]))"
  by (cases c)
     (simp_all add: tv_get_def tv_post_def tv_put_def tv_delete_def bind_io_def lift_io_def
        return_io_def client_request_def receive_def split: sum.split)

lemma handle_call_tool_unfold:
  "handle_call_tool w name arguments =
     (case tool_call w name (or_empty_args arguments) of
        Inl e \<Rightarrow> (except_clauses e, [])
      | Inr None \<Rightarrow> (Inr (unknown_tool name), [])
      | Inr (Some c) \<Rightarrow>
          (case build_headers w of
             Inl e \<Rightarrow> (except_clauses e, [])
           | Inr headers \<Rightarrow>
               (finish (receive (req_verb (call_request headers c))
                          (network w (call_request headers c))),
                [call_request headers c])))"
  by (simp add: handle_call_tool_def try_body_tool_call after_call_def run_unfold
        raise_io_def return_io_def bind_io_def finish_def unknown_tool_def
      split: sum.split option.split)

subsection \<open>Dictionaries\<close>

lemma keys_setitem: "fst ` set (setitem d k v) = insert k (fst ` set d)"
  by (induction d) auto

lemma setitem_new: "k \<notin> fst ` set d \<Longrightarrow> setitem d k v = d @ [(k, v)]"
  by (induction d) auto

lemma map_of_Some_key: "map_of d k = Some v \<Longrightarrow> k \<in> fst ` set d"
  by (drule map_of_SomeD) force

lemma dict_get_absent: "k \<notin> fst ` set d \<Longrightarrow> dict_get d k = VNone"
proof -
  assume "k \<notin> fst ` set d"
  then have "map_of d k = None" by (simp add: map_of_eq_None_iff)
  then show ?thesis by (simp add: dict_get_def)
qed

lemma dict_get_present: "dict_get d k \<noteq> VNone \<Longrightarrow> k \<in> fst ` set d"
  using dict_get_absent by blast

lemma truthy_present: "truthy (dict_get d k) \<Longrightarrow> k \<in> fst ` set d"
  using dict_get_absent [of k d] by (cases "k \<in> fst ` set d") auto

lemma keys_not_none_items: "k \<in> fst ` set (not_none_items d) \<Longrightarrow> k \<in> fst ` set d"
  by (auto simp: not_none_items_def)

lemma keys_fold_truthy:
  "k \<in> fst ` set (fold (\<lambda>field params.
        if truthy (dict_get args field)
        then setitem params field (dict_get args field) else params) fs init)
   \<Longrightarrow> k \<in> fst ` set init \<or> k \<in> fst ` set args"
proof (induction fs arbitrary: init)
  case Nil
  then show ?case by simp
next
  case (Cons f fs)
  show ?case
  proof (cases "truthy (dict_get args f)")
    case True
    with Cons.prems have "k \<in> fst ` set (setitem init f (dict_get args f)) \<or> k \<in> fst ` set args"
      using Cons.IH [of "setitem init f (dict_get args f)"] by simp
    with True show ?thesis by (auto simp: keys_setitem dest: truthy_present)
  next
    case False
    with Cons.prems show ?thesis using Cons.IH [of init] by simp
  qed
qed

lemma keys_fold_field_map:
  "k \<in> fst ` set (fold (\<lambda>(arg_key, param_key) params.
        if dict_get args arg_key \<noteq> VNone
        then setitem params param_key (dict_get args arg_key) else params) fm init)
   \<Longrightarrow> k \<in> fst ` set init \<or> k \<in> snd ` set (filter (\<lambda>ap. fst ap \<in> fst ` set args) fm)"
proof (induction fm arbitrary: init)
  case Nil
  then show ?case by simp
next
  case (Cons ap fm)
  obtain a p where ap: "ap = (a, p)" by (cases ap)
  show ?case
  proof (cases "dict_get args a \<noteq> VNone")
    case True
    then have present: "a \<in> fst ` set args" by (rule dict_get_present)
    from Cons.prems True ap
    have "k \<in> fst ` set (setitem init p (dict_get args a))
          \<or> k \<in> snd ` set (filter (\<lambda>ap. fst ap \<in> fst ` set args) fm)"
      using Cons.IH [of "setitem init p (dict_get args a)"] by simp
    with present ap show ?thesis by (auto simp: keys_setitem)
  next
    case False
    with Cons.prems ap
    have "k \<in> fst ` set init \<or> k \<in> snd ` set (filter (\<lambda>ap. fst ap \<in> fst ` set args) fm)"
      using Cons.IH [of init] by simp
    then show ?thesis by auto
  qed
qed

text \<open>
  On a table whose target names are distinct, the loop of \<open>get_connection_reports\<close>
  computes the query of the specification.
\<close>

lemma fold_field_map_append:
  "distinct (map snd fm) \<Longrightarrow> snd ` set fm \<inter> fst ` set init = {}
   \<Longrightarrow> fold (\<lambda>(arg_key, param_key) params.
        if dict_get args arg_key \<noteq> VNone
        then setitem params param_key (dict_get args arg_key) else params) fm init
     = init @ map (\<lambda>ap. (snd ap, dict_get args (fst ap)))
                (filter (\<lambda>ap. dict_get args (fst ap) \<noteq> VNone) fm)"
proof (induction fm arbitrary: init)
  case Nil
  then show ?case by simp
next
  case (Cons ap fm)
  obtain a p where ap: "ap = (a, p)" by (cases ap)
  from Cons.prems ap have fresh: "p \<notin> fst ` set init" and dist: "distinct (map snd fm)"
    and notin: "p \<notin> snd ` set fm" and disj: "snd ` set fm \<inter> fst ` set init = {}"
    by auto
  show ?case
  proof (cases "dict_get args a \<noteq> VNone")
    case True
    have "snd ` set fm \<inter> fst ` set (setitem init p (dict_get args a)) = {}"
      using notin disj by (auto simp: keys_setitem)
    from Cons.IH [OF dist this] True ap fresh show ?thesis
      by (simp add: setitem_new)
  next
    case False
    from Cons.IH [OF dist disj] False ap show ?thesis by simp
  qed
qed

lemma keys_fold_field_map_pair:
  "(k, v) \<in> set (fold (\<lambda>(arg_key, param_key) params.
        if dict_get args arg_key \<noteq> VNone
        then setitem params param_key (dict_get args arg_key) else params) field_map [])
   \<Longrightarrow> k \<in> snd ` {x \<in> set field_map. fst x \<in> fst ` set args}"
proof -
  assume "(k, v) \<in> set (fold (\<lambda>(arg_key, param_key) params.
        if dict_get args arg_key \<noteq> VNone
        then setitem params param_key (dict_get args arg_key) else params) field_map [])"
  then have "k \<in> fst ` set (fold (\<lambda>(arg_key, param_key) params.
        if dict_get args arg_key \<noteq> VNone
        then setitem params param_key (dict_get args arg_key) else params) field_map [])"
    by (rule rev_image_eqI) simp
  from keys_fold_field_map [OF this] show ?thesis by simp
qed

lemma map_filter_concat:
  "map f (filter P xs) = concat (map (\<lambda>x. if P x then [f x] else []) xs)"
  by (induction xs) simp_all

lemma fold_field_map_translated:
  "fold (\<lambda>(arg_key, param_key) params.
        if dict_get args arg_key \<noteq> VNone
        then setitem params param_key (dict_get args arg_key) else params) field_map []
   = translated_query args"
proof -
  have "distinct (map snd field_map)" by (simp add: field_map_def)
  then have "fold (\<lambda>(arg_key, param_key) params.
        if dict_get args arg_key \<noteq> VNone
        then setitem params param_key (dict_get args arg_key) else params) field_map []
     = map (\<lambda>ap. (snd ap, dict_get args (fst ap)))
         (filter (\<lambda>ap. dict_get args (fst ap) \<noteq> VNone) field_map)"
    using fold_field_map_append [of field_map "[]" args] by simp
  also have "\<dots> = translated_query args"
    unfolding map_filter_concat
    by (simp add: field_map_def translated_query_def supplied_def)
  finally show ?thesis .
qed

subsection \<open>The shaping of the arguments\<close>

lemma only_KeyError_step:
  "(c \<Longrightarrow> only_KeyError args a) \<Longrightarrow> (\<not> c \<Longrightarrow> only_KeyError args b)
   \<Longrightarrow> only_KeyError args (if c then a else b)"
  by simp

lemma tool_call_only_KeyError: "only_KeyError args (tool_call w name args)"
  unfolding tool_call_def
  apply (intro only_KeyError_step)
  apply (simp_all add: only_KeyError_def getitem_def dict_pop_def Let_def map_of_eq_None_iff
      split: option.split)
  done

lemma tool_call_Inl:
  "tool_call w name args = Inl e \<Longrightarrow> \<exists>k. e = KeyError k \<and> k \<notin> fst ` set args"
  using tool_call_only_KeyError [of args w name]
  by (cases e) (simp_all add: only_KeyError_def)

lemma keys_ok_step:
  "(c \<Longrightarrow> keys_ok name args a) \<Longrightarrow> (\<not> c \<Longrightarrow> keys_ok name args b)
   \<Longrightarrow> keys_ok name args (if c then a else b)"
  by simp

lemma tool_call_keys_ok: "keys_ok name args (tool_call w name args)"
  unfolding tool_call_def
  apply (intro keys_ok_step)
  apply (auto simp: keys_ok_def key_allowed_def getitem_def dict_pop_def Let_def
      map_of_eq_None_iff or_None_def or_empty_def dict_keys_def keys_setitem
      not_none_items_def
      dest: truthy_present keys_fold_truthy keys_fold_field_map_pair map_of_Some_key
      split: option.split_asm option.split if_split_asm)
  done

subsection \<open>Evaluation\<close>

lemma or_empty_args_Some: "or_empty_args (Some a) = a"
  by (simp add: or_empty_args_def)

lemma or_empty_Some: "or_empty (Some b) = b"
  by (simp add: or_empty_def)

lemma build_headers_token:
  "get_token w = Inr token \<Longrightarrow>
   build_headers w =
     Inr [(S ''Authorization'', S ''Bearer '' @ token), (S ''Content-Type'', S ''application/json'')]"
  by (simp add: build_headers_def)


lemma get_token_cases:
  "get_token w = Inl (ValueError TOKEN_MISSING) \<or> (\<exists>token. get_token w = Inr token)"
  by (simp add: get_token_def Let_def)

lemma get_token_secret: "get_token \<lparr>isprintable = ip, environ = environ_with (S ''secret''), network = n\<rparr> = Inr (S ''secret'')"
  by (simp add: get_token_def environ_with_def S_def)

lemma build_headers_secret:
  "build_headers \<lparr>isprintable = ip, environ = environ_with (S ''secret''), network = n\<rparr> = Inr secret_headers"
  unfolding build_headers_def get_token_secret secret_headers_def
  by (simp add: S_def)

lemma tool_call_unknown:
  "name \<notin> tool_name ` set TOOLS \<Longrightarrow> tool_call w name args = Inr None"
  by (simp add: TOOLS_def tool_call_def)

lemma dumps_error_compact:
  "dumps None (VDict [(S ''error'', VStr m)]) = S ''{\"error\": '' @ encode_basestring_ascii m @ S ''}''"
  by (simp add: dumps_def newline_indent_def encode_basestring_ascii_def escape_char_def S_def)

lemma dumps_error_indented:
  "dumps (Some 2) (VDict [(S ''error'', VStr m)])
   = S ''{\<newline>  \"error\": '' @ encode_basestring_ascii m @ S ''\<newline>}''"
  by (simp add: dumps_def newline_indent_def encode_basestring_ascii_def escape_char_def S_def
      numeral_2_eq_2)

lemma tv_as_run:
  "tv_get w path params = run w (Get path params)"
  "tv_post w path body = run w (Post path body)"
  "tv_put w path body = run w (Put path body)"
  "tv_delete w path = run w (Delete path)"
  by simp_all

lemma BASE_URL_append: "BASE_URL @ S path = S (''https://webapi.teamviewer.com/api/v1'' @ path)"
  by (simp add: BASE_URL_def S_def)

text \<open>The same two facts on the code points, for evaluation after \<open>S\<close> is unfolded.\<close>

lemma dumps_error_compact_num:
  "dumps None (VDict [([101, 114, 114, 111, 114], VStr m)])
   = [123, 34, 101, 114, 114, 111, 114, 34, 58, 32] @ encode_basestring_ascii m @ [125]"
  using dumps_error_compact [of m] by (simp add: S_def)

lemma dumps_error_indented_num:
  "dumps (Some 2) (VDict [([101, 114, 114, 111, 114], VStr m)])
   = [123, 10, 32, 32, 34, 101, 114, 114, 111, 114, 34, 58, 32] @ encode_basestring_ascii m @ [10, 125]"
  using dumps_error_indented [of m] by (simp add: S_def)

subsection \<open>Outcomes\<close>





lemma finish_decode_not_json:
  assumes "200 \<le> resp_status_code response" "resp_status_code response \<le> 299"
    and "resp_status_code response \<noteq> 204"
    and "resp_json response = Inl (NotJSON m)"
  shows "finish (receive v (Inr response))
         = Inr [TextContent (S ''text'') (dumps (Some 2) (VDict [(S ''error'', VStr m)]))]"
  using assms
  by (simp add: finish_def receive_def except_clauses_def raise_for_status_def response_json_def)

lemma finish_decode_too_deep:
  assumes "200 \<le> resp_status_code response" "resp_status_code response \<le> 299"
    and "resp_status_code response \<noteq> 204"
    and "resp_json response = Inl TooDeep"
  shows "finish (receive v (Inr response)) = Inl RecursionError"
  using assms
  by (simp add: finish_def receive_def except_clauses_def raise_for_status_def response_json_def)



subsection \<open>Keys of a request\<close>

lemma in_snd_filter:
  "k \<in> snd ` set (filter P fm) \<longleftrightarrow> (\<exists>ap \<in> set fm. P ap \<and> snd ap = k)"
  by force

lemma request_keys:
  "dict_keys (req_json (call_request headers c)) \<union> dict_keys (req_params (call_request headers c))
   = call_keys c"
  by (cases c) (simp_all add: dict_keys_def)

lemma absent_optional_not_allowed:
  assumes "t \<in> set TOOLS" and "a \<in> set (tool_properties t)" and "a \<notin> set (tool_required t)"
    and "a \<notin> fst ` set args"
  shows "\<not> key_allowed (tool_name t) args a
         \<and> \<not> key_allowed (tool_name t) args (param_name (tool_name t) a)"
  using assms unfolding TOOLS_def
  apply (simp only: set_simps insert_iff empty_iff)
  apply (elim disjE)
  apply (auto simp: key_allowed_def param_name_def in_snd_filter field_map_def)
  done

lemma requests_of_call:
  assumes "r \<in> set (snd (handle_call_tool w name arguments))"
  shows "\<exists>c headers. tool_call w name (or_empty_args arguments) = Inr (Some c)
           \<and> build_headers w = Inr headers \<and> r = call_request headers c"
  using assms
  by (auto simp: handle_call_tool_unfold split: sum.split_asm option.split_asm)

lemma try_body_get_connection_reports:
  "try_body w (S ''get_connection_reports'') args
   = bind_io (tv_get w (S ''/reports/connections'') (or_None (translated_query args)))
       (\<lambda>data. return_io (ok data))"
  by (simp add: try_body_def fold_field_map_translated)

lemma tool_call_get_connection_reports:
  "tool_call w (S ''get_connection_reports'') args
   = Inr (Some (Get (S ''/reports/connections'') (or_None (translated_query args))))"
  by (simp add: tool_call_def fold_field_map_translated)

section \<open>Properties of the dispatcher\<close>

text \<open>
  C10. For every tool name, a call whose argument mapping is absent (\<open>None\<close>) gives the
  same result and the same outbound requests as a call with the empty mapping:
  \<open>arguments or {}\<close> is the empty dictionary for both.
\<close>

theorem null_arguments_as_empty:
  "handle_call_tool w name None = handle_call_tool w name (Some [])"
  by (simp add: handle_call_tool_def or_empty_args_def)

text \<open>
  C5. For every name that is not in the catalog and any arguments, the handler returns
  one text item whose text is the compact JSON object with the single key \<open>error\<close> and
  the value \<open>Unknown tool: <name>\<close>; no request is issued and nothing is raised.
\<close>

theorem unknown_tool_soft_error:
  assumes "name \<notin> tool_name ` set TOOLS"
  shows "handle_call_tool w name arguments =
           (Inr [TextContent (S ''text'')
                   (S ''{\"error\": '' @ encode_basestring_ascii (S ''Unknown tool: '' @ name) @ S ''}'')],
            [])
         \<and> S ''{\"error\": '' @ encode_basestring_ascii (S ''Unknown tool: '' @ name) @ S ''}''
           = dumps None (VDict [(S ''error'', VStr (S ''Unknown tool: '' @ name))])"
  using tool_call_unknown [OF assms]
  by (simp add: handle_call_tool_unfold unknown_tool_def dumps_error_compact)

theorem unknown_tool_soft_error_witness:
  "S ''nope'' \<notin> tool_name ` set TOOLS
   \<and> handle_call_tool world_ok (S ''nope'') (Some [(S ''x'', VInt 1)])
     = (Inr [TextContent (S ''text'') (S ''{\"error\": \"Unknown tool: nope\"}'')], [])"
proof -
  have h: "S ''nope'' \<notin> tool_name ` set TOOLS" by (simp add: TOOLS_def)
  show ?thesis
    using h unknown_tool_soft_error [OF h, of world_ok "Some [(S ''x'', VInt 1)]"]
    by (simp add: encode_basestring_ascii_def escape_char_def S_def)
qed

text \<open>
  C9. The claim is that every envelope is indented JSON text. The unknown-tool branch
  calls \<open>json.dumps\<close> without \<open>indent=2\<close>, unlike \<open>ok\<close> and the two \<open>except\<close> clauses:
  for the name \<open>frobnicate\<close> the text is on one line, and it differs from the indented
  serialisation of the same object.
\<close>

theorem unknown_tool_text_not_indented:
  "handle_call_tool world_ok (S ''frobnicate'') None
     = (Inr [TextContent (S ''text'') (S ''{\"error\": \"Unknown tool: frobnicate\"}'')], [])
   \<and> dumps (Some 2) (VDict [(S ''error'', VStr (S ''Unknown tool: frobnicate''))])
     = S ''{\<newline>  \"error\": \"Unknown tool: frobnicate\"\<newline>}''
   \<and> S ''{\"error\": \"Unknown tool: frobnicate\"}''
     \<noteq> dumps (Some 2) (VDict [(S ''error'', VStr (S ''Unknown tool: frobnicate''))])"
proof -
  have "S ''frobnicate'' \<notin> tool_name ` set TOOLS" by (simp add: TOOLS_def)
  then have "tool_call world_ok (S ''frobnicate'') [] = Inr None" by (rule tool_call_unknown)
  then have "handle_call_tool world_ok (S ''frobnicate'') None
     = (Inr [TextContent (S ''text'') (S ''{\"error\": \"Unknown tool: frobnicate\"}'')], [])"
    by (simp add: handle_call_tool_unfold or_empty_args_def unknown_tool_def
        dumps_error_compact_num encode_basestring_ascii_def escape_char_def S_def)
  moreover have "dumps (Some 2) (VDict [(S ''error'', VStr (S ''Unknown tool: frobnicate''))])
     = S ''{\<newline>  \"error\": \"Unknown tool: frobnicate\"\<newline>}''"
    by (simp add: dumps_error_indented_num encode_basestring_ascii_def escape_char_def S_def)
  moreover have "S ''{\"error\": \"Unknown tool: frobnicate\"}''
     \<noteq> S ''{\<newline>  \"error\": \"Unknown tool: frobnicate\"\<newline>}''"
    by simp
  ultimately show ?thesis by simp
qed

text \<open>
  C2. The claim is that each of the four transport functions turns a 204 response into
  \<open>{"success": true}\<close>. Only \<open>tv_delete\<close> tests for 204; \<open>tv_get\<close>, \<open>tv_post\<close> and \<open>tv_put\<close>
  call \<open>response.json()\<close> on the empty body, which raises \<open>JSONDecodeError\<close>, and the
  dispatcher reports a successful update as an error.
\<close>

theorem transport_204_only_delete:
  "tv_put world_204 (S ''/devices/d1'') (Some [(S ''alias'', VStr (S ''pc''))])
     = (Inl (JSONDecodeError (S ''Expecting value: line 1 column 1 (char 0)'')),
        [\<lparr>req_verb = PUT, req_url = S ''https://webapi.teamviewer.com/api/v1/devices/d1'',
          req_headers = secret_headers, req_params = None,
          req_json = Some [(S ''alias'', VStr (S ''pc''))], req_timeout = 30\<rparr>])
   \<and> fst (tv_get world_204 (S ''/ping'') None)
     = Inl (JSONDecodeError (S ''Expecting value: line 1 column 1 (char 0)''))
   \<and> fst (tv_post world_204 (S ''/groups'') (Some [(S ''name'', VStr (S ''X''))]))
     = Inl (JSONDecodeError (S ''Expecting value: line 1 column 1 (char 0)''))
   \<and> fst (tv_delete world_204 (S ''/devices/d1'')) = Inr (VDict [(S ''success'', VBool True)])
   \<and> fst (handle_call_tool world_204 (S ''update_device'')
            (Some [(S ''device_id'', VStr (S ''d1'')), (S ''alias'', VStr (S ''pc''))]))
     = Inr [TextContent (S ''text'')
              (S ''{\<newline>  \"error\": \"Expecting value: line 1 column 1 (char 0)\"\<newline>}'')]"
proof -
  have put: "tv_put world_204 (S ''/devices/d1'') (Some [(S ''alias'', VStr (S ''pc''))])
     = (Inl (JSONDecodeError (S ''Expecting value: line 1 column 1 (char 0)'')),
        [\<lparr>req_verb = PUT, req_url = S ''https://webapi.teamviewer.com/api/v1/devices/d1'',
          req_headers = secret_headers, req_params = None,
          req_json = Some [(S ''alias'', VStr (S ''pc''))], req_timeout = 30\<rparr>])"
    unfolding tv_as_run run_unfold world_204_def build_headers_secret
    by (simp add: BASE_URL_append or_empty_Some receive_def answer_204_def raise_for_status_def
        response_json_def)
  have get: "fst (tv_get world_204 (S ''/ping'') None)
     = Inl (JSONDecodeError (S ''Expecting value: line 1 column 1 (char 0)''))"
    unfolding tv_as_run run_unfold world_204_def build_headers_secret
    by (simp add: receive_def answer_204_def raise_for_status_def response_json_def)
  have post: "fst (tv_post world_204 (S ''/groups'') (Some [(S ''name'', VStr (S ''X''))]))
     = Inl (JSONDecodeError (S ''Expecting value: line 1 column 1 (char 0)''))"
    unfolding tv_as_run run_unfold world_204_def build_headers_secret
    by (simp add: receive_def answer_204_def raise_for_status_def response_json_def)
  have delete: "fst (tv_delete world_204 (S ''/devices/d1'')) = Inr (VDict [(S ''success'', VBool True)])"
    unfolding tv_as_run run_unfold world_204_def build_headers_secret
    by (simp add: receive_def answer_204_def raise_for_status_def response_json_def)
  have call: "tool_call world_204 (S ''update_device'')
       [(S ''device_id'', VStr (S ''d1'')), (S ''alias'', VStr (S ''pc''))]
     = Inr (Some (Put (S ''/devices/d1'') (Some [(S ''alias'', VStr (S ''pc''))])))"
    by (simp add: tool_call_def dict_pop_def not_none_items_def py_str_def S_def)
  have "fst (handle_call_tool world_204 (S ''update_device'')
            (Some [(S ''device_id'', VStr (S ''d1'')), (S ''alias'', VStr (S ''pc''))]))
     = Inr [TextContent (S ''text'')
              (S ''{\<newline>  \"error\": \"Expecting value: line 1 column 1 (char 0)\"\<newline>}'')]"
    unfolding handle_call_tool_unfold or_empty_args_Some call
    unfolding world_204_def build_headers_secret
    by (simp add: receive_def answer_204_def raise_for_status_def response_json_def finish_def
        except_clauses_def dumps_error_indented_num encode_basestring_ascii_def escape_char_def
        S_def)
  with put get post delete show ?thesis by simp
qed






text \<open>
  C3. The claim is that a 2xx body that does not decode makes the invocation fail.
  \<open>response.json()\<close> raises \<open>json.JSONDecodeError\<close>, a subclass of \<open>ValueError\<close>, and the
  second \<open>except\<close> clause catches it: \<open>ping\<close> against a server that answers 200 with an
  HTML page returns an error object.
\<close>

theorem parse_failure_is_caught:
  "handle_call_tool world_html (S ''ping'') None
   = (Inr [TextContent (S ''text'')
             (S ''{\<newline>  \"error\": \"Expecting value: line 1 column 1 (char 0)\"\<newline>}'')],
      [\<lparr>req_verb = GET, req_url = S ''https://webapi.teamviewer.com/api/v1/ping'',
        req_headers = secret_headers, req_params = None, req_json = None, req_timeout = 30\<rparr>])"
proof -
  have call: "tool_call world_html (S ''ping'') [] = Inr (Some (Get (S ''/ping'') None))"
    by (simp add: tool_call_def)
  show ?thesis
    unfolding handle_call_tool_unfold or_empty_args_def option.case call
    unfolding world_html_def build_headers_secret
    by (simp add: BASE_URL_def receive_def answer_html_def raise_for_status_def
        response_json_def finish_def except_clauses_def dumps_error_indented_num
        encode_basestring_ascii_def escape_char_def S_def)
qed

text \<open>
  C3, as amended. Whenever the request of an invocation is answered with a 2xx status
  other than 204 and a body that is not JSON text, the \<open>JSONDecodeError\<close> is caught by the
  \<open>ValueError\<close> clause and the invocation returns the error object with the decoder's
  message, indented: it does not fail. A decoding failure that is not a \<open>ValueError\<close>
  (the \<open>RecursionError\<close> of a body nested too deep) does leave the handler.
\<close>

theorem parse_failure_soft_error:
  assumes "snd (handle_call_tool w name arguments) = [r]"
    and "network w r = Inr response"
    and "200 \<le> resp_status_code response" and "resp_status_code response \<le> 299"
    and "resp_status_code response \<noteq> 204"
  shows "(resp_json response = Inl (NotJSON m)
          \<longrightarrow> fst (handle_call_tool w name arguments)
              = Inr [TextContent (S ''text'') (dumps (Some 2) (VDict [(S ''error'', VStr m)]))])
         \<and> (resp_json response = Inl TooDeep
          \<longrightarrow> fst (handle_call_tool w name arguments) = Inl RecursionError)"
proof -
  from assms(1) have "r \<in> set (snd (handle_call_tool w name arguments))" by simp
  from requests_of_call [OF this] obtain c headers
    where c: "tool_call w name (or_empty_args arguments) = Inr (Some c)"
      and h: "build_headers w = Inr headers"
      and r: "r = call_request headers c"
    by blast
  from c h r assms(2)
  have "fst (handle_call_tool w name arguments) = finish (receive (req_verb r) (Inr response))"
    by (simp add: handle_call_tool_unfold)
  with finish_decode_not_json [OF assms(3) assms(4) assms(5), of m "req_verb r"]
    finish_decode_too_deep [OF assms(3) assms(4) assms(5), of "req_verb r"]
  show ?thesis by simp
qed

theorem parse_failure_soft_error_witness:
  "snd (handle_call_tool world_html (S ''get_account'') None)
     = [\<lparr>req_verb = GET, req_url = S ''https://webapi.teamviewer.com/api/v1/account'',
         req_headers = secret_headers, req_params = None, req_json = None, req_timeout = 30\<rparr>]
   \<and> network world_html
        \<lparr>req_verb = GET, req_url = S ''https://webapi.teamviewer.com/api/v1/account'',
         req_headers = secret_headers, req_params = None, req_json = None, req_timeout = 30\<rparr>
     = Inr \<lparr>resp_status_code = 200, resp_text = S ''<html>'',
            resp_json = Inl (NotJSON (S ''Expecting value: line 1 column 1 (char 0)''))\<rparr>
   \<and> fst (handle_call_tool world_html (S ''get_account'') None)
     = Inr [TextContent (S ''text'')
              (dumps (Some 2)
                 (VDict [(S ''error'', VStr (S ''Expecting value: line 1 column 1 (char 0)''))]))]
   \<and> snd (handle_call_tool world_deep (S ''get_account'') None)
     = [\<lparr>req_verb = GET, req_url = S ''https://webapi.teamviewer.com/api/v1/account'',
         req_headers = secret_headers, req_params = None, req_json = None, req_timeout = 30\<rparr>]
   \<and> network world_deep
        \<lparr>req_verb = GET, req_url = S ''https://webapi.teamviewer.com/api/v1/account'',
         req_headers = secret_headers, req_params = None, req_json = None, req_timeout = 30\<rparr>
     = Inr \<lparr>resp_status_code = 200, resp_text = S ''[[[[[[[[[['', resp_json = Inl TooDeep\<rparr>
   \<and> fst (handle_call_tool world_deep (S ''get_account'') None) = Inl RecursionError"
proof -
  let ?r = "\<lparr>req_verb = GET, req_url = S ''https://webapi.teamviewer.com/api/v1/account'',
         req_headers = secret_headers, req_params = None, req_json = None, req_timeout = 30\<rparr>"
  let ?html = "\<lparr>resp_status_code = 200, resp_text = S ''<html>'',
            resp_json = Inl (NotJSON (S ''Expecting value: line 1 column 1 (char 0)''))\<rparr>"
  let ?deep = "\<lparr>resp_status_code = 200, resp_text = S ''[[[[[[[[[['', resp_json = Inl TooDeep\<rparr>"
  have call: "tool_call w (S ''get_account'') [] = Inr (Some (Get (S ''/account'') None))" for w
    by (simp add: tool_call_def)
  have a1: "snd (handle_call_tool world_html (S ''get_account'') None) = [?r]"
    unfolding handle_call_tool_unfold or_empty_args_def option.case call
    unfolding world_html_def build_headers_secret
    by (simp add: BASE_URL_append)
  have a2: "network world_html ?r = Inr ?html"
    by (simp add: world_html_def answer_html_def)
  have b1: "snd (handle_call_tool world_deep (S ''get_account'') None) = [?r]"
    unfolding handle_call_tool_unfold or_empty_args_def option.case call
    unfolding world_deep_def build_headers_secret
    by (simp add: BASE_URL_append)
  have b2: "network world_deep ?r = Inr ?deep"
    by (simp add: world_deep_def answer_deep_def)
  have s1: "200 \<le> resp_status_code ?html" "resp_status_code ?html \<le> 299"
    "resp_status_code ?html \<noteq> 204" by simp_all
  have s2: "200 \<le> resp_status_code ?deep" "resp_status_code ?deep \<le> 299"
    "resp_status_code ?deep \<noteq> 204" by simp_all
  from parse_failure_soft_error
    [OF a1 a2 s1, of "S ''Expecting value: line 1 column 1 (char 0)''"]
  have e1: "fst (handle_call_tool world_html (S ''get_account'') None)
     = Inr [TextContent (S ''text'')
              (dumps (Some 2)
                 (VDict [(S ''error'', VStr (S ''Expecting value: line 1 column 1 (char 0)''))]))]"
    by simp
  from parse_failure_soft_error [OF b1 b2 s2]
  have e2: "fst (handle_call_tool world_deep (S ''get_account'') None) = Inl RecursionError"
    by simp
  from a1 a2 e1 b1 b2 e2 show ?thesis by simp
qed



text \<open>
  C7. \<open>get_connection_reports\<close> makes the one transport call \<open>tv_get\<close> on
  \<open>/reports/connections\<close> whose query is the translation of the arguments: of the seven
  arguments \<open>from_date\<close>, \<open>to_date\<close>, \<open>device_id\<close>, \<open>user_id\<close>, \<open>session_code\<close>, \<open>limit\<close>
  and \<open>offset\<close>, each one that is supplied (present and not \<open>None\<close>) appears under the
  name \<open>from\<close>, \<open>to\<close>, \<open>deviceid\<close>, \<open>userid\<close>, \<open>sessioncode\<close>, \<open>limit\<close> and \<open>offset\<close>
  respectively, in that order, and every other one is omitted. When only \<open>from_date\<close>
  and \<open>limit\<close> are supplied the query is exactly \<open>from\<close> and \<open>limit\<close> with their values,
  and with a configured token that is the query of the one request issued.
\<close>

theorem connection_reports_translation:
  "try_body w (S ''get_connection_reports'') args
     = bind_io (tv_get w (S ''/reports/connections'') (or_None (translated_query args)))
         (\<lambda>data. return_io (ok data))
   \<and> (fst ` set args = {S ''from_date'', S ''limit''}
        \<and> dict_get args (S ''from_date'') \<noteq> VNone \<and> dict_get args (S ''limit'') \<noteq> VNone
      \<longrightarrow> translated_query args
          = [(S ''from'', dict_get args (S ''from_date'')), (S ''limit'', dict_get args (S ''limit''))])
   \<and> (get_token w = Inr token
      \<longrightarrow> snd (handle_call_tool w (S ''get_connection_reports'') (Some args))
          = [\<lparr>req_verb = GET, req_url = BASE_URL @ S ''/reports/connections'',
              req_headers = [(S ''Authorization'', S ''Bearer '' @ token),
                             (S ''Content-Type'', S ''application/json'')],
              req_params = or_None (translated_query args),
              req_json = None, req_timeout = 30\<rparr>])"
proof (intro conjI impI)
  show "try_body w (S ''get_connection_reports'') args
     = bind_io (tv_get w (S ''/reports/connections'') (or_None (translated_query args)))
         (\<lambda>data. return_io (ok data))"
    by (rule try_body_get_connection_reports)
next
  assume only: "fst ` set args = {S ''from_date'', S ''limit''}
        \<and> dict_get args (S ''from_date'') \<noteq> VNone \<and> dict_get args (S ''limit'') \<noteq> VNone"
  have absent: "dict_get args k = VNone" if "k \<noteq> S ''from_date''" "k \<noteq> S ''limit''" for k
    using that only by (intro dict_get_absent) simp
  have "dict_get args (S ''to_date'') = VNone" "dict_get args (S ''device_id'') = VNone"
    "dict_get args (S ''user_id'') = VNone" "dict_get args (S ''session_code'') = VNone"
    "dict_get args (S ''offset'') = VNone"
    by (simp_all add: absent)
  with only
  show "translated_query args
          = [(S ''from'', dict_get args (S ''from_date'')), (S ''limit'', dict_get args (S ''limit''))]"
    by (simp add: translated_query_def supplied_def)
next
  assume token: "get_token w = Inr token"
  show "snd (handle_call_tool w (S ''get_connection_reports'') (Some args))
          = [\<lparr>req_verb = GET, req_url = BASE_URL @ S ''/reports/connections'',
              req_headers = [(S ''Authorization'', S ''Bearer '' @ token),
                             (S ''Content-Type'', S ''application/json'')],
              req_params = or_None (translated_query args),
              req_json = None, req_timeout = 30\<rparr>]"
    unfolding handle_call_tool_unfold or_empty_args_Some tool_call_get_connection_reports
    by (simp add: build_headers_token [OF token])
qed

theorem connection_reports_translation_witness:
  "fst ` set [(S ''limit'', VInt 50), (S ''from_date'', VStr (S ''2024-01-01T00:00:00''))]
     = {S ''from_date'', S ''limit''}
   \<and> get_token world_ok = Inr (S ''secret'')
   \<and> snd (handle_call_tool world_ok (S ''get_connection_reports'')
           (Some [(S ''limit'', VInt 50), (S ''from_date'', VStr (S ''2024-01-01T00:00:00''))]))
     = [\<lparr>req_verb = GET,
         req_url = S ''https://webapi.teamviewer.com/api/v1/reports/connections'',
         req_headers = secret_headers,
         req_params = Some [(S ''from'', VStr (S ''2024-01-01T00:00:00'')), (S ''limit'', VInt 50)],
         req_json = None, req_timeout = 30\<rparr>]"
proof -
  let ?args = "[(S ''limit'', VInt 50), (S ''from_date'', VStr (S ''2024-01-01T00:00:00''))]"
  have keys: "fst ` set ?args = {S ''from_date'', S ''limit''}" by auto
  have v1: "dict_get ?args (S ''from_date'') = VStr (S ''2024-01-01T00:00:00'')"
    by (simp add: dict_get_def)
  have v2: "dict_get ?args (S ''limit'') = VInt 50"
    by (simp add: dict_get_def)
  have t: "get_token world_ok = Inr (S ''secret'')"
    by (simp add: world_ok_def get_token_secret)
  from connection_reports_translation [of world_ok ?args "S ''secret''"] keys v1 v2 t
  have "snd (handle_call_tool world_ok (S ''get_connection_reports'') (Some ?args))
     = [\<lparr>req_verb = GET, req_url = BASE_URL @ S ''/reports/connections'',
              req_headers = [(S ''Authorization'', S ''Bearer '' @ S ''secret''),
                             (S ''Content-Type'', S ''application/json'')],
              req_params = Some [(S ''from'', VStr (S ''2024-01-01T00:00:00'')), (S ''limit'', VInt 50)],
              req_json = None, req_timeout = 30\<rparr>]"
    by (simp add: or_None_def)
  with keys t show ?thesis
    by (simp add: BASE_URL_def secret_headers_def S_def)
qed

text \<open>
  C8. For every tool of the catalog and every optional argument of its schema that the
  call does not have, no request that the invocation issues has a key for that
  argument, under its own name or under its query-parameter name, in the JSON body or
  in the query. In particular \<open>create_group\<close> called with \<open>name\<close> alone makes the
  transport call \<open>tv_post\<close> on \<open>/groups\<close> with the body of that one key, and with a
  configured token the request's JSON body is exactly that.
\<close>

theorem absent_optional_omitted:
  "(t \<in> set TOOLS \<and> a \<in> set (tool_properties t) \<and> a \<notin> set (tool_required t)
      \<and> a \<notin> fst ` set (or_empty_args arguments)
      \<and> r \<in> set (snd (handle_call_tool w (tool_name t) arguments))
    \<longrightarrow> a \<notin> dict_keys (req_json r) \<and> a \<notin> dict_keys (req_params r)
        \<and> param_name (tool_name t) a \<notin> dict_keys (req_json r)
        \<and> param_name (tool_name t) a \<notin> dict_keys (req_params r))
   \<and> try_body w (S ''create_group'') [(S ''name'', x)]
       = bind_io (tv_post w (S ''/groups'') (Some [(S ''name'', x)])) (\<lambda>data. return_io (ok data))
   \<and> (get_token w = Inr token
      \<longrightarrow> snd (handle_call_tool w (S ''create_group'') (Some [(S ''name'', x)]))
          = [\<lparr>req_verb = POST, req_url = BASE_URL @ S ''/groups'',
              req_headers = [(S ''Authorization'', S ''Bearer '' @ token),
                             (S ''Content-Type'', S ''application/json'')],
              req_params = None,
              req_json = Some [(S ''name'', x)], req_timeout = 30\<rparr>])"
proof (intro conjI impI)
  assume h: "t \<in> set TOOLS \<and> a \<in> set (tool_properties t) \<and> a \<notin> set (tool_required t)
      \<and> a \<notin> fst ` set (or_empty_args arguments)
      \<and> r \<in> set (snd (handle_call_tool w (tool_name t) arguments))"
  then obtain c headers
    where c: "tool_call w (tool_name t) (or_empty_args arguments) = Inr (Some c)"
      and r: "r = call_request headers c"
    using requests_of_call [of r w "tool_name t" arguments] by blast
  from tool_call_keys_ok [of "tool_name t" "or_empty_args arguments" w] c
  have allowed: "\<forall>k \<in> call_keys c. key_allowed (tool_name t) (or_empty_args arguments) k"
    by (simp add: keys_ok_def)
  from h absent_optional_not_allowed [of t a "or_empty_args arguments"]
  have no: "\<not> key_allowed (tool_name t) (or_empty_args arguments) a"
    "\<not> key_allowed (tool_name t) (or_empty_args arguments) (param_name (tool_name t) a)"
    by simp_all
  with allowed have "a \<notin> call_keys c" "param_name (tool_name t) a \<notin> call_keys c"
    by blast+
  then have "a \<notin> dict_keys (req_json r) \<union> dict_keys (req_params r)"
    "param_name (tool_name t) a \<notin> dict_keys (req_json r) \<union> dict_keys (req_params r)"
    unfolding r request_keys by simp_all
  then show "a \<notin> dict_keys (req_json r)" "a \<notin> dict_keys (req_params r)"
    "param_name (tool_name t) a \<notin> dict_keys (req_json r)"
    "param_name (tool_name t) a \<notin> dict_keys (req_params r)"
    by simp_all
next
  show "try_body w (S ''create_group'') [(S ''name'', x)]
       = bind_io (tv_post w (S ''/groups'') (Some [(S ''name'', x)])) (\<lambda>data. return_io (ok data))"
    by (simp add: try_body_def getitem_def dict_get_def bind_io_def lift_io_def)
next
  assume token: "get_token w = Inr token"
  have call: "tool_call w (S ''create_group'') [(S ''name'', x)]
     = Inr (Some (Post (S ''/groups'') (Some [(S ''name'', x)])))"
    by (simp add: tool_call_def getitem_def dict_get_def)
  show "snd (handle_call_tool w (S ''create_group'') (Some [(S ''name'', x)]))
          = [\<lparr>req_verb = POST, req_url = BASE_URL @ S ''/groups'',
              req_headers = [(S ''Authorization'', S ''Bearer '' @ token),
                             (S ''Content-Type'', S ''application/json'')],
              req_params = None,
              req_json = Some [(S ''name'', x)], req_timeout = 30\<rparr>]"
    unfolding handle_call_tool_unfold or_empty_args_Some call
    by (simp add: build_headers_token [OF token] or_empty_Some)
qed

theorem absent_optional_omitted_witness:
  "\<lparr>tool_name = S ''create_group'', tool_properties = [S ''name'', S ''policy_id''],
     tool_required = [S ''name'']\<rparr> \<in> set TOOLS
   \<and> S ''policy_id'' \<in> set [S ''name'', S ''policy_id'']
   \<and> S ''policy_id'' \<notin> set [S ''name'']
   \<and> S ''policy_id'' \<notin> fst ` set [(S ''name'', VStr (S ''X''))]
   \<and> snd (handle_call_tool world_ok (S ''create_group'') (Some [(S ''name'', VStr (S ''X''))]))
     = [\<lparr>req_verb = POST, req_url = S ''https://webapi.teamviewer.com/api/v1/groups'',
         req_headers = secret_headers, req_params = None,
         req_json = Some [(S ''name'', VStr (S ''X''))], req_timeout = 30\<rparr>]
   \<and> S ''policy_id''
     \<notin> dict_keys (req_json
          \<lparr>req_verb = POST, req_url = S ''https://webapi.teamviewer.com/api/v1/groups'',
           req_headers = secret_headers, req_params = None,
           req_json = Some [(S ''name'', VStr (S ''X''))], req_timeout = 30\<rparr>)"
proof -
  let ?t = "\<lparr>tool_name = S ''create_group'', tool_properties = [S ''name'', S ''policy_id''],
     tool_required = [S ''name'']\<rparr>"
  let ?r = "\<lparr>req_verb = POST, req_url = S ''https://webapi.teamviewer.com/api/v1/groups'',
         req_headers = secret_headers, req_params = None,
         req_json = Some [(S ''name'', VStr (S ''X''))], req_timeout = 30\<rparr>"
  let ?arguments = "Some [(S ''name'', VStr (S ''X''))]"
  note inst = absent_optional_omitted
    [of ?t "S ''policy_id''" ?arguments ?r world_ok "VStr (S ''X'')" "S ''secret''"]
  have a1: "?t \<in> set TOOLS" by (simp add: TOOLS_def)
  have a2: "S ''policy_id'' \<in> set (tool_properties ?t)" by simp
  have a3: "S ''policy_id'' \<notin> set (tool_required ?t)" by simp
  have a4: "S ''policy_id'' \<notin> fst ` set (or_empty_args ?arguments)"
    by (simp add: or_empty_args_Some)
  have t: "get_token world_ok = Inr (S ''secret'')"
    by (simp add: world_ok_def get_token_secret)
  from inst t have "snd (handle_call_tool world_ok (S ''create_group'') ?arguments)
          = [\<lparr>req_verb = POST, req_url = BASE_URL @ S ''/groups'',
              req_headers = [(S ''Authorization'', S ''Bearer '' @ S ''secret''),
                             (S ''Content-Type'', S ''application/json'')],
              req_params = None,
              req_json = Some [(S ''name'', VStr (S ''X''))], req_timeout = 30\<rparr>]"
    by blast
  then have reqs: "snd (handle_call_tool world_ok (S ''create_group'') ?arguments) = [?r]"
    by (simp add: BASE_URL_def secret_headers_def S_def)
  then have a5: "?r \<in> set (snd (handle_call_tool world_ok (tool_name ?t) ?arguments))"
    by simp
  from inst a1 a2 a3 a4 a5 have "S ''policy_id'' \<notin> dict_keys (req_json ?r)"
    by blast
  with a1 a4 reqs show ?thesis by (simp add: or_empty_args_Some)
qed

end
